theory Spec2Isabelle
  imports Main "HOL-Library.Sublist"
begin

section \<open>The Result type (index.ts, lines 1-86)\<close>

text \<open>
  \<^verbatim>\<open>type Ok<T> = {kind: 'ok'; value: T}\<close>, \<^verbatim>\<open>type Err<E> = {kind: 'err'; error: E}\<close>,
  \<^verbatim>\<open>type Result<T, E> = Ok<T> | Err<E>\<close>: a closed tagged union of two plain objects.
  The constructor of the datatype is the object shape; \<open>kind\<close> reads the
  discriminator field.
\<close>

datatype ('t, 'e) result = Ok 't | Err 'e

fun kind :: "('t, 'e) result \<Rightarrow> string" where
  "kind (Ok v) = ''ok''"
| "kind (Err e) = ''err''"

text \<open>\<^verbatim>\<open>function ok<T>(value: T): Ok<T> { return {kind: 'ok', value}; }\<close>\<close>

definition ok :: "'t \<Rightarrow> ('t, 'e) result" where
  "ok v = Ok v"

text \<open>\<^verbatim>\<open>function err<E>(error: E): Err<E> { return {kind: 'err', error}; }\<close>\<close>

definition err :: "'e \<Rightarrow> ('t, 'e) result" where
  "err e = Err e"

text \<open>\<^verbatim>\<open>return result.kind === 'ok';\<close>\<close>

definition isOk :: "('t, 'e) result \<Rightarrow> bool" where
  "isOk r = (kind r = ''ok'')"

text \<open>\<^verbatim>\<open>return result.kind === 'err';\<close>\<close>

definition isErr :: "('t, 'e) result \<Rightarrow> bool" where
  "isErr r = (kind r = ''err'')"


section \<open>The host language: completions, promises, Error objects\<close>

text \<open>
  A JavaScript call either returns a value or throws one. A caller-supplied function
  may also read and write the state of the program, so it is a function from the state
  before the call to its completion and the state after it.
\<close>

datatype ('a, 'x) outcome = Returns 'a | Throws 'x

type_synonym ('a, 'x, 's) effect = "'s \<Rightarrow> ('a, 'x) outcome \<times> 's"

text \<open>
  A promise is described by how it settles: fulfilled with a value, rejected with a
  reason, or never settled.
\<close>

datatype ('a, 'x) promise = Fulfilled 'a | Rejected 'x | Pending

text \<open>
  \<^verbatim>\<open>res instanceof Promise\<close> separates the values a function can hand back:
  a \<open>Promise\<close> object, or anything else.
\<close>

datatype ('a, 'p) js = Plain 'a | Promise 'p

type_synonym ('a, 'x) maybe_async = "('a, ('a, 'x) promise) js"

text \<open>
  \<^verbatim>\<open>p.then(g)\<close>: when \<open>p\<close> fulfils, \<open>g\<close> runs on the value; what \<open>g\<close>
  returns fulfils the new promise, what it throws rejects it. A rejection of \<open>p\<close>
  passes through. (The functions handed to \<open>then\<close> in this library return plain
  objects without a \<open>then\<close> field, so no promise is ever adopted.)
\<close>

fun then_p :: "('a, 'x) promise \<Rightarrow> ('a \<Rightarrow> ('b, 'x) outcome) \<Rightarrow> ('b, 'x) promise" where
  "then_p (Fulfilled v) g = (case g v of Returns w \<Rightarrow> Fulfilled w | Throws ex \<Rightarrow> Rejected ex)"
| "then_p (Rejected r) g = Rejected r"
| "then_p Pending g = Pending"

text \<open>
  \<^verbatim>\<open>p.catch(g)\<close>: a fulfilment passes through; when \<open>p\<close> rejects, \<open>g\<close> runs
  on the reason.
\<close>

fun catch_p :: "('a, 'x) promise \<Rightarrow> ('x \<Rightarrow> ('a, 'y) outcome) \<Rightarrow> ('a, 'y) promise" where
  "catch_p (Fulfilled v) g = Fulfilled v"
| "catch_p (Rejected r) g = (case g r of Returns w \<Rightarrow> Fulfilled w | Throws ex \<Rightarrow> Rejected ex)"
| "catch_p Pending g = Pending"

text \<open>
  The library's own functions \<open>ok\<close> and \<open>err\<close>, passed as callbacks: they always
  return.
\<close>

definition returning :: "('a \<Rightarrow> 'b) \<Rightarrow> 'a \<Rightarrow> ('b, 'x) outcome" where
  "returning g v = Returns (g v)"

text \<open>
  An \<open>Error\<close> object: its message and, when the constructor is given one, a cause.
  \<^verbatim>\<open>new Error(msg)\<close> sets no cause.
\<close>

datatype 'c js_error = Error string "'c option"

definition new_Error :: "string \<Rightarrow> 'c js_error" where
  "new_Error msg = Error msg None"


section \<open>The combinators (index.ts, lines 88-448)\<close>

text \<open>
  \<^verbatim>\<open>
  function map(result, f) {
    if (isOk(result)) {
      const res = f(result.value);
      if (res instanceof Promise) { return res.then(ok); } else { return ok(res); }
    } else { return result; }
  }\<close>
  The test \<open>isOk(result)\<close> and the field reads it guards are the case distinction on
  the object; \<open>return result\<close> on the failure path gives back the same failure, at
  the type of the result. The function is named \<open>map_res\<close>, \<open>map\<close> being the
  function on lists.
\<close>

definition map_res ::
  "('t, 'e) result \<Rightarrow> ('t \<Rightarrow> (('u, 'x) maybe_async, 'x, 's) effect)
     \<Rightarrow> ((('u, 'e) result, 'x) maybe_async, 'x, 's) effect" where
  "map_res result f s =
     (case result of
        Ok v \<Rightarrow>
          (case f v s of
             (Throws ex, s') \<Rightarrow> (Throws ex, s')
           | (Returns res, s') \<Rightarrow>
               (case res of
                  Promise p \<Rightarrow> (Returns (Promise (then_p p (returning ok))), s')
                | Plain u \<Rightarrow> (Returns (Plain (ok u)), s')))
      | Err e \<Rightarrow> (Returns (Plain (Err e)), s))"

text \<open>
  \<^verbatim>\<open>return isErr(result) ? err(f(result.error)) : result;\<close>
\<close>

definition mapErr ::
  "('t, 'e) result \<Rightarrow> ('e \<Rightarrow> ('f, 'x, 's) effect) \<Rightarrow> (('t, 'f) result, 'x, 's) effect" where
  "mapErr result f s =
     (case result of
        Err e \<Rightarrow>
          (case f e s of
             (Throws ex, s') \<Rightarrow> (Throws ex, s')
           | (Returns e', s') \<Rightarrow> (Returns (err e'), s'))
      | Ok v \<Rightarrow> (Returns (Ok v), s))"

text \<open>
  \<^verbatim>\<open>return isOk(result) ? result.value : defaultValue;\<close>
\<close>

definition unwrapOr :: "('t, 'e) result \<Rightarrow> 't \<Rightarrow> 't" where
  "unwrapOr result defaultValue = (case result of Ok v \<Rightarrow> v | Err e \<Rightarrow> defaultValue)"

text \<open>
  \<^verbatim>\<open>
  function andThen(result, f) {
    if (isOk(result)) {
      const res = f(result.value);
      if (res instanceof Promise) { return res; } else { return res; }
    } else { return result; }
  }\<close>
\<close>

definition andThen ::
  "('t, 'e) result \<Rightarrow> ('t \<Rightarrow> ((('u, 'e) result, 'p) js, 'x, 's) effect)
     \<Rightarrow> ((('u, 'e) result, 'p) js, 'x, 's) effect" where
  "andThen result f s =
     (case result of
        Ok v \<Rightarrow>
          (case f v s of
             (Throws ex, s') \<Rightarrow> (Throws ex, s')
           | (Returns res, s') \<Rightarrow>
               (case res of
                  Promise p \<Rightarrow> (Returns (Promise p), s')
                | Plain r \<Rightarrow> (Returns (Plain r), s')))
      | Err e \<Rightarrow> (Returns (Plain (Err e)), s))"

text \<open>
  \<^verbatim>\<open>return isErr(result) ? f(result.error) : result;\<close>
\<close>

definition orElse ::
  "('t, 'e) result \<Rightarrow> ('e \<Rightarrow> (('t, 'f) result, 'x, 's) effect)
     \<Rightarrow> (('t, 'f) result, 'x, 's) effect" where
  "orElse result f s =
     (case result of
        Err e \<Rightarrow> f e s
      | Ok v \<Rightarrow> (Returns (Ok v), s))"

text \<open>
  \<^verbatim>\<open>
  function match(result, okFn, errFn) {
    if (isOk(result)) {
      const res = okFn(result.value);
      if (res instanceof Promise) { return res; } else { return res; }
    } else {
      const res = errFn(result.error);
      if (res instanceof Promise) { return res; } else { return res; }
    }
  }\<close>
\<close>

definition match ::
  "('t, 'e) result \<Rightarrow> ('t \<Rightarrow> (('u, 'p) js, 'x, 's) effect)
     \<Rightarrow> ('e \<Rightarrow> (('u, 'p) js, 'x, 's) effect) \<Rightarrow> (('u, 'p) js, 'x, 's) effect" where
  "match result okFn errFn s =
     (case result of
        Ok v \<Rightarrow>
          (case okFn v s of
             (Throws ex, s') \<Rightarrow> (Throws ex, s')
           | (Returns res, s') \<Rightarrow>
               (case res of
                  Promise p \<Rightarrow> (Returns (Promise p), s')
                | Plain u \<Rightarrow> (Returns (Plain u), s')))
      | Err e \<Rightarrow>
          (case errFn e s of
             (Throws ex, s') \<Rightarrow> (Throws ex, s')
           | (Returns res, s') \<Rightarrow>
               (case res of
                  Promise p \<Rightarrow> (Returns (Promise p), s')
                | Plain u \<Rightarrow> (Returns (Plain u), s'))))"

text \<open>
  \<^verbatim>\<open>
  function fromThrowable(f) {
    try {
      const result = f();
      if (result instanceof Promise) { return result.then(ok).catch(err); }
      else { return ok(result); }
    } catch (e) { return err(e); }
  }\<close>
\<close>

definition fromThrowable ::
  "(('t, 'x) maybe_async, 'x, 's) effect
     \<Rightarrow> ((('t, 'x) result, 'x) maybe_async, 'y, 's) effect" where
  "fromThrowable f s =
     (case f s of
        (Returns result, s') \<Rightarrow>
          (case result of
             Promise p \<Rightarrow>
               (Returns (Promise (catch_p (then_p p (returning ok)) (returning err))), s')
           | Plain v \<Rightarrow> (Returns (Plain (ok v)), s'))
      | (Throws e, s') \<Rightarrow> (Returns (Plain (err e)), s'))"

text \<open>
  \<^verbatim>\<open>return promise.then(ok).catch((error) => err(error));\<close>
\<close>

definition fromPromise :: "('t, 'x) promise \<Rightarrow> (('t, 'x) result, 'y) promise" where
  "fromPromise promise = catch_p (then_p promise (returning ok)) (\<lambda>error. Returns (err error))"

text \<open>
  \<^verbatim>\<open>
  function combine(results) {
    const values = [];
    for (const result of results) {
      if (isErr(result)) { return result; }
      values.push(result.value);
    }
    return ok(values);
  }\<close>
  The loop over the array, with the array \<open>values\<close> built so far; helpers.ts has the
  same function, word for word.
\<close>

fun combine_loop :: "'t list \<Rightarrow> ('t, 'e) result list \<Rightarrow> ('t list, 'e) result" where
  "combine_loop values [] = ok values"
| "combine_loop values (result # rest) =
     (case result of
        Err e \<Rightarrow> Err e
      | Ok v \<Rightarrow> combine_loop (values @ [v]) rest)"

definition combine :: "('t, 'e) result list \<Rightarrow> ('t list, 'e) result" where
  "combine results = combine_loop [] results"

text \<open>
  \<^verbatim>\<open>
  function combineWithAllErrors(results) {
    const values = [];
    const errors = [];
    for (const result of results) {
      if (isOk(result)) { values.push(result.value); }
      else { errors.push(result.error); }
    }
    return errors.length === 0 ? ok(values) : err(errors);
  }\<close>
  helpers.ts has the same function, word for word.
\<close>

fun combineWithAllErrors_loop ::
  "'t list \<Rightarrow> 'e list \<Rightarrow> ('t, 'e) result list \<Rightarrow> ('t list, 'e list) result" where
  "combineWithAllErrors_loop values errors [] =
     (if length errors = 0 then ok values else err errors)"
| "combineWithAllErrors_loop values errors (result # rest) =
     (case result of
        Ok v \<Rightarrow> combineWithAllErrors_loop (values @ [v]) errors rest
      | Err e \<Rightarrow> combineWithAllErrors_loop values (errors @ [e]) rest)"

definition combineWithAllErrors :: "('t, 'e) result list \<Rightarrow> ('t list, 'e list) result" where
  "combineWithAllErrors results = combineWithAllErrors_loop [] [] results"

text \<open>
  \<^verbatim>\<open>
  function unsafeUnwrap(result) {
    if (isErr(result)) { throw new Error('Attempted to unwrap an Err value'); }
    return result.value;
  }\<close>
  helpers.ts has the same body under the name \<open>safeUnwrap\<close>.
\<close>

definition unsafeUnwrap :: "('t, 'e) result \<Rightarrow> ('t, 'c js_error) outcome" where
  "unsafeUnwrap result =
     (case result of
        Err e \<Rightarrow> Throws (new_Error ''Attempted to unwrap an Err value'')
      | Ok v \<Rightarrow> Returns v)"


section \<open>The synchronous helpers (helpers.ts)\<close>

text \<open>
  helpers.ts, and the second text of index.ts (from line 449), hold the same
  functions without the \<open>instanceof Promise\<close> test: whatever the caller's function
  returns is taken as the value.
  \<^verbatim>\<open>return isOk(result) ? ok(f(result.value)) : result;\<close>
\<close>

definition helpers_map ::
  "('t, 'e) result \<Rightarrow> ('t \<Rightarrow> ('u, 'x, 's) effect) \<Rightarrow> (('u, 'e) result, 'x, 's) effect" where
  "helpers_map result f s =
     (case result of
        Ok v \<Rightarrow>
          (case f v s of
             (Throws ex, s') \<Rightarrow> (Throws ex, s')
           | (Returns u, s') \<Rightarrow> (Returns (ok u), s'))
      | Err e \<Rightarrow> (Returns (Err e), s))"

text \<open>\<^verbatim>\<open>return isOk(result) ? f(result.value) : result;\<close>\<close>

definition helpers_andThen ::
  "('t, 'e) result \<Rightarrow> ('t \<Rightarrow> (('u, 'e) result, 'x, 's) effect)
     \<Rightarrow> (('u, 'e) result, 'x, 's) effect" where
  "helpers_andThen result f s =
     (case result of
        Ok v \<Rightarrow> f v s
      | Err e \<Rightarrow> (Returns (Err e), s))"

text \<open>\<^verbatim>\<open>try { return ok(f()); } catch (e) { return err(e); }\<close>\<close>

definition helpers_fromThrowable :: "('t, 'x, 's) effect \<Rightarrow> (('t, 'x) result, 'y, 's) effect" where
  "helpers_fromThrowable f s =
     (case f s of
        (Returns v, s') \<Rightarrow> (Returns (ok v), s')
      | (Throws e, s') \<Rightarrow> (Returns (err e), s'))"

text \<open>
  \<^verbatim>\<open>
  function safeUnwrap(result) {
    if (isErr(result)) { throw new Error('Attempted to unwrap an Err value'); }
    return result.value;
  }\<close>
\<close>

definition safeUnwrap :: "('t, 'e) result \<Rightarrow> ('t, 'c js_error) outcome" where
  "safeUnwrap result =
     (case result of
        Err e \<Rightarrow> Throws (new_Error ''Attempted to unwrap an Err value'')
      | Ok v \<Rightarrow> Returns v)"


section \<open>The combinators on references\<close>

text \<open>
  A Result is an object, and the functions above receive and return references to
  objects. To speak about what a call does to the objects that exist, the same
  functions are written once more over a store: the objects allocated so far, in
  the order of their allocation, an address being a position in it. Reading
  \<open>result.kind\<close>, \<open>result.value\<close> or \<open>result.error\<close> is reading the store at the
  reference; an object literal (\<open>ok(...)\<close>, \<open>err(...)\<close>) adds an object at a new
  address; \<open>return result\<close> hands the reference back. An assignment to a field would
  be an update of the store at an address that exists; the source has none. The
  caller's functions get the store and give it back, as they may allocate.
\<close>

type_synonym addr = nat

type_synonym 'v store = "('v, 'v) result list"

definition alloc :: "('v, 'v) result \<Rightarrow> 'v store \<Rightarrow> addr \<times> 'v store" where
  "alloc obj h = (length h, h @ [obj])"

text \<open>
  The payloads of \<open>combine\<close> and \<open>combineWithAllErrors\<close> on the store: any value, or
  one of the arrays \<open>values\<close> and \<open>errors\<close> that the two functions build.
\<close>

datatype 'a jsval = Atom 'a | Array "'a jsval list"

text \<open>
  \<open>map\<close>. In the promise branch the reaction \<open>ok\<close> has not run when \<open>map\<close>
  returns, so nothing is allocated by the call; the promise is described by the
  object it will fulfil with.
\<close>

definition map_ref ::
  "addr \<Rightarrow> ('v \<Rightarrow> (('v, 'x) maybe_async, 'x, 'v store) effect)
     \<Rightarrow> ((addr, (('v, 'v) result, 'x) promise) js, 'x, 'v store) effect" where
  "map_ref result f h =
     (case h ! result of
        Ok v \<Rightarrow>
          (case f v h of
             (Throws ex, h') \<Rightarrow> (Throws ex, h')
           | (Returns res, h') \<Rightarrow>
               (case res of
                  Promise p \<Rightarrow> (Returns (Promise (then_p p (returning ok))), h')
                | Plain u \<Rightarrow> (case alloc (ok u) h' of (a, h'') \<Rightarrow> (Returns (Plain a), h''))))
      | Err e \<Rightarrow> (Returns (Plain result), h))"

text \<open>\<open>mapErr\<close>.\<close>

definition mapErr_ref ::
  "addr \<Rightarrow> ('v \<Rightarrow> ('v, 'x, 'v store) effect) \<Rightarrow> (addr, 'x, 'v store) effect" where
  "mapErr_ref result f h =
     (case h ! result of
        Err e \<Rightarrow>
          (case f e h of
             (Throws ex, h') \<Rightarrow> (Throws ex, h')
           | (Returns e', h') \<Rightarrow> (case alloc (err e') h' of (a, h'') \<Rightarrow> (Returns a, h'')))
      | Ok v \<Rightarrow> (Returns result, h))"

text \<open>\<open>unwrapOr\<close>.\<close>

definition unwrapOr_ref :: "addr \<Rightarrow> 'v \<Rightarrow> 'v store \<Rightarrow> 'v \<times> 'v store" where
  "unwrapOr_ref result defaultValue h =
     (case h ! result of Ok v \<Rightarrow> (v, h) | Err e \<Rightarrow> (defaultValue, h))"

text \<open>\<open>andThen\<close>: the caller's function returns a reference to the Result it made, or a promise.\<close>

definition andThen_ref ::
  "addr \<Rightarrow> ('v \<Rightarrow> ((addr, 'p) js, 'x, 'v store) effect) \<Rightarrow> ((addr, 'p) js, 'x, 'v store) effect" where
  "andThen_ref result f h =
     (case h ! result of
        Ok v \<Rightarrow>
          (case f v h of
             (Throws ex, h') \<Rightarrow> (Throws ex, h')
           | (Returns res, h') \<Rightarrow>
               (case res of
                  Promise p \<Rightarrow> (Returns (Promise p), h')
                | Plain a \<Rightarrow> (Returns (Plain a), h')))
      | Err e \<Rightarrow> (Returns (Plain result), h))"

text \<open>\<open>orElse\<close>.\<close>

definition orElse_ref ::
  "addr \<Rightarrow> ('v \<Rightarrow> (addr, 'x, 'v store) effect) \<Rightarrow> (addr, 'x, 'v store) effect" where
  "orElse_ref result f h =
     (case h ! result of
        Err e \<Rightarrow> f e h
      | Ok v \<Rightarrow> (Returns result, h))"

text \<open>\<open>match\<close>.\<close>

definition match_ref ::
  "addr \<Rightarrow> ('v \<Rightarrow> (('u, 'p) js, 'x, 'v store) effect)
     \<Rightarrow> ('v \<Rightarrow> (('u, 'p) js, 'x, 'v store) effect) \<Rightarrow> (('u, 'p) js, 'x, 'v store) effect" where
  "match_ref result okFn errFn h =
     (case h ! result of
        Ok v \<Rightarrow>
          (case okFn v h of
             (Throws ex, h') \<Rightarrow> (Throws ex, h')
           | (Returns res, h') \<Rightarrow>
               (case res of
                  Promise p \<Rightarrow> (Returns (Promise p), h')
                | Plain u \<Rightarrow> (Returns (Plain u), h')))
      | Err e \<Rightarrow>
          (case errFn e h of
             (Throws ex, h') \<Rightarrow> (Throws ex, h')
           | (Returns res, h') \<Rightarrow>
               (case res of
                  Promise p \<Rightarrow> (Returns (Promise p), h')
                | Plain u \<Rightarrow> (Returns (Plain u), h'))))"

text \<open>\<open>combine\<close>: the array of references is read, \<open>return result\<close> hands back the
  reference of the failure that was found.\<close>

fun combine_ref_loop ::
  "'a jsval list \<Rightarrow> addr list \<Rightarrow> 'a jsval store \<Rightarrow> addr \<times> 'a jsval store" where
  "combine_ref_loop values [] h = alloc (ok (Array values)) h"
| "combine_ref_loop values (result # rest) h =
     (case h ! result of
        Err e \<Rightarrow> (result, h)
      | Ok v \<Rightarrow> combine_ref_loop (values @ [v]) rest h)"

definition combine_ref :: "addr list \<Rightarrow> 'a jsval store \<Rightarrow> addr \<times> 'a jsval store" where
  "combine_ref results h = combine_ref_loop [] results h"

text \<open>\<open>combineWithAllErrors\<close>.\<close>

fun combineWithAllErrors_ref_loop ::
  "'a jsval list \<Rightarrow> 'a jsval list \<Rightarrow> addr list \<Rightarrow> 'a jsval store \<Rightarrow> addr \<times> 'a jsval store" where
  "combineWithAllErrors_ref_loop values errors [] h =
     (if length errors = 0 then alloc (ok (Array values)) h else alloc (err (Array errors)) h)"
| "combineWithAllErrors_ref_loop values errors (result # rest) h =
     (case h ! result of
        Ok v \<Rightarrow> combineWithAllErrors_ref_loop (values @ [v]) errors rest h
      | Err e \<Rightarrow> combineWithAllErrors_ref_loop values (errors @ [e]) rest h)"

definition combineWithAllErrors_ref :: "addr list \<Rightarrow> 'a jsval store \<Rightarrow> addr \<times> 'a jsval store" where
  "combineWithAllErrors_ref results h = combineWithAllErrors_ref_loop [] [] results h"

text \<open>\<open>unsafeUnwrap\<close>.\<close>

definition unsafeUnwrap_ref :: "addr \<Rightarrow> ('v, 'c js_error, 'v store) effect" where
  "unsafeUnwrap_ref result h =
     (case h ! result of
        Err e \<Rightarrow> (Throws (new_Error ''Attempted to unwrap an Err value''), h)
      | Ok v \<Rightarrow> (Returns v, h))"

text \<open>
  A caller's function that overwrites no object: the store it leaves is the store it
  found, with new objects after it.
\<close>

definition overwrites_nothing :: "('a \<Rightarrow> 'v store \<Rightarrow> 'b \<times> 'v store) \<Rightarrow> bool" where
  "overwrites_nothing f = (\<forall>v h. prefix h (snd (f v h)))"

text \<open>
  The store \<open>h'\<close> holds every object of \<open>h\<close> as it was, the one at \<open>r\<close> among
  them; a returned reference is \<open>r\<close> itself or the address of an object that did
  not exist in \<open>h\<close>.
\<close>

definition untouched :: "'v store \<Rightarrow> addr \<Rightarrow> 'v store \<Rightarrow> bool" where
  "untouched h r h' = (prefix h h' \<and> h' ! r = h ! r)"

definition same_or_new :: "'v store \<Rightarrow> addr \<Rightarrow> addr \<Rightarrow> bool" where
  "same_or_new h r a = (a = r \<or> length h \<le> a)"


section \<open>Callbacks used as concrete inputs\<close>

text \<open>
  The callbacks of index.spec.ts: \<^verbatim>\<open>(value) => value * 2\<close> and the probe
  \<^verbatim>\<open>() => { throw new Error('Should not be called') }\<close>.
\<close>

definition double :: "nat \<Rightarrow> ((nat, unit js_error) maybe_async, unit js_error, unit) effect" where
  "double v s = (Returns (Plain (v * 2)), s)"

definition should_not_be_called :: "'a \<Rightarrow> ('b, unit js_error, unit) effect" where
  "should_not_be_called v s = (Throws (new_Error ''Should not be called''), s)"

text \<open>
  The callback of the tests in index.spec.ts,
  \<^verbatim>\<open>async (value) => Promise.resolve(value * 2)\<close>: it returns a promise that
  fulfils with twice its argument and touches no state.
\<close>

definition async_double :: "nat \<Rightarrow> ((nat, string) maybe_async, string, unit) effect" where
  "async_double v s = (Returns (Promise (Fulfilled (v * 2))), s)"

text \<open>
  \<^verbatim>\<open>(value) => value\<close>, \<^verbatim>\<open>(error) => error\<close>, \<^verbatim>\<open>(value) => ok(value)\<close> and
  \<^verbatim>\<open>(error) => ok(error)\<close> on the store, and a store of two objects.
\<close>

definition same_value ::
  "nat jsval \<Rightarrow> ((nat jsval, string) maybe_async, string, nat jsval store) effect" where
  "same_value v h = (Returns (Plain v), h)"

definition same_error :: "nat jsval \<Rightarrow> (nat jsval, string, nat jsval store) effect" where
  "same_error e h = (Returns e, h)"

definition wrap_ok ::
  "nat jsval \<Rightarrow> ((addr, (addr, string) promise) js, string, nat jsval store) effect" where
  "wrap_ok v h = (case alloc (ok v) h of (a, h') \<Rightarrow> (Returns (Plain a), h'))"

definition sample_store :: "nat jsval store" where
  "sample_store = [Ok (Atom 1), Err (Atom 2)]"

definition rescue :: "nat jsval \<Rightarrow> (addr, string, nat jsval store) effect" where
  "rescue e h = (case alloc (ok e) h of (a, h') \<Rightarrow> (Returns a, h'))"

text \<open>
  A callback that does assign to a field of the first object of the store (a
  success), \<^verbatim>\<open>(value) => { first.value = 0; return value; }\<close>, and a callback that
  returns the second object of the store, \<^verbatim>\<open>(value) => second\<close>.
\<close>

definition clobber ::
  "nat jsval \<Rightarrow> ((nat jsval, string) maybe_async, string, nat jsval store) effect" where
  "clobber v h = (Returns (Plain v), h[0 := Ok (Atom 0)])"

definition second_result ::
  "nat jsval \<Rightarrow> ((addr, (addr, string) promise) js, string, nat jsval store) effect" where
  "second_result v h = (Returns (Plain 1), h)"

text \<open>
  A function that returns a promise which rejects,
  \<^verbatim>\<open>() => Promise.reject('boom')\<close>.
\<close>

definition rejecting :: "((nat, string) maybe_async, string, unit) effect" where
  "rejecting s = (Returns (Promise (Rejected ''boom'')), s)"


section \<open>Inspection\<close>

text \<open>
  The tests \<open>isOk(result)\<close> and \<open>isErr(result)\<close> of the source decide the shape of
  the object, which is how the definitions above branch.
\<close>

lemma isOk_iff: "isOk r = (\<exists>v. r = Ok v)"
  by (cases r) (simp_all add: isOk_def)

lemma isErr_iff: "isErr r = (\<exists>e. r = Err e)"
  by (cases r) (simp_all add: isErr_def)

text \<open>
  C8. For every Result (a value of the type, so one of the two shapes) exactly one of
  \<open>isOk\<close> and \<open>isErr\<close> holds, \<open>isErr\<close> being the negation of \<open>isOk\<close>;
  \<open>ok x\<close> is Ok and not Err, and \<open>err e\<close> is Err and not Ok.
\<close>

theorem isOk_isErr_exclusive_exhaustive:
  "isOk r \<noteq> isErr r \<and> isErr r = (\<not> isOk r)
   \<and> isOk (ok x :: ('a, 'b) result) \<and> \<not> isErr (ok x :: ('a, 'b) result)
   \<and> isErr (err e :: ('a, 'b) result) \<and> \<not> isOk (err e :: ('a, 'b) result)"
  by (cases r) (simp_all add: isOk_def isErr_def ok_def err_def)


section \<open>Aggregation\<close>

lemma combine_loop_all_ok: "combine_loop acc (map Ok vs) = ok (acc @ vs)"
  by (induction vs arbitrary: acc) simp_all

lemma combine_loop_first_err: "combine_loop acc (map Ok vs @ Err e # post) = err e"
  by (induction vs arbitrary: acc) (simp_all add: err_def)

lemma result_list_shape:
  "(\<exists>vs. rs = map Ok vs) \<or> (\<exists>vs e post. rs = map Ok vs @ Err e # post)"
proof (induction rs)
  case Nil
  have "[] = map Ok []" by simp
  then show ?case by (rule exI [THEN disjI1])
next
  case (Cons r rs)
  show ?case
  proof (cases r)
    case (Err e)
    have "\<exists>vs e' post. r # rs = map Ok vs @ Err e' # post"
      using Err by (intro exI [of _ "[]"] exI [of _ e] exI [of _ rs]) simp
    then show ?thesis by (rule disjI2)
  next
    case (Ok v)
    from Cons.IH show ?thesis
    proof (elim disjE exE)
      fix vs assume "rs = map Ok vs"
      with Ok have "r # rs = map Ok (v # vs)" by simp
      then show ?thesis by (rule exI [THEN disjI1])
    next
      fix vs e post assume "rs = map Ok vs @ Err e # post"
      with Ok have "\<exists>ws e' post'. r # rs = map Ok ws @ Err e' # post'"
        by (intro exI [of _ "v # vs"] exI [of _ e] exI [of _ post]) simp
      then show ?thesis by (rule disjI2)
    qed
  qed
qed

text \<open>
  C1. \<open>combine\<close> returns the first failure of the list as it is: when the elements
  before it are all successes, the result is that failure with its own payload,
  whatever follows it. A list of successes gives the success of their payloads in
  the order of the list, and the empty list gives the success of the empty list.
  Every list has one of the two shapes.
\<close>

theorem combine_first_failure:
  "combine (map Ok vs @ Err e # post) = err e
   \<and> combine (map Ok vs) = ok vs
   \<and> combine ([] :: ('a, 'b) result list) = ok []
   \<and> ((\<exists>ws. rs = map Ok ws) \<or> (\<exists>ws e' post'. rs = map Ok ws @ Err e' # post'))"
  unfolding combine_def
  using combine_loop_all_ok [of "[]" vs] combine_loop_first_err [of "[]" vs e post]
    result_list_shape [of rs]
  by (simp add: ok_def)

lemma cwae_loop:
  "combineWithAllErrors_loop vals errs rs =
     (if errs @ [e. Err e \<leftarrow> rs] = [] then ok (vals @ [v. Ok v \<leftarrow> rs])
      else err (errs @ [e. Err e \<leftarrow> rs]))"
proof (induction rs arbitrary: vals errs)
  case Nil
  then show ?case by simp
next
  case (Cons r rs)
  then show ?case by (cases r) simp_all
qed

lemma failures_empty_iff: "([e. Err e \<leftarrow> rs] = []) = (\<not> list_ex isErr rs)"
  by (induction rs) (auto simp: isErr_def split: result.splits)

text \<open>
  C2. \<open>combineWithAllErrors\<close> goes through the whole list: when some element is a
  failure, the result is the failure of all the failure payloads of the list in
  their order; otherwise it is the success of all the success payloads in their
  order. The empty list gives the success of the empty list.
\<close>

theorem combineWithAllErrors_partition:
  "combineWithAllErrors rs =
     (if list_ex isErr rs then err [e. Err e \<leftarrow> rs] else ok [v. Ok v \<leftarrow> rs])
   \<and> combineWithAllErrors ([] :: ('a, 'b) result list) = ok []"
  unfolding combineWithAllErrors_def
  using failures_empty_iff [of rs]
  by (simp add: cwae_loop)

lemma combine_isOk_iff: "isOk (combine_loop acc rs) = list_all isOk rs"
  by (induction rs arbitrary: acc) (auto simp: isOk_def ok_def split: result.splits)

lemma cwae_ok_iff: 
  "(combineWithAllErrors_loop vals errs rs = Ok ws) = (errs = [] \<and> combine_loop vals rs = Ok ws)"
  by (induction rs arbitrary: vals errs) (auto simp: ok_def err_def split: result.splits)

text \<open>
  C10. \<open>combine\<close> and \<open>combineWithAllErrors\<close> succeed on the same lists, namely
  the lists whose elements are all successes, and then with the same list of values.
\<close>

theorem combine_agrees_with_combineWithAllErrors:
  "isOk (combine rs) = isOk (combineWithAllErrors rs)
   \<and> isOk (combine rs) = list_all isOk rs
   \<and> (combine rs = ok vs) = (combineWithAllErrors rs = ok vs)"
proof -
  have eq: "\<And>ws. (combineWithAllErrors rs = Ok ws) = (combine rs = Ok ws)"
    by (simp add: combineWithAllErrors_def combine_def cwae_ok_iff)
  have "isOk (combine rs) = isOk (combineWithAllErrors rs)"
  proof (cases "combine rs")
    case (Ok ws)
    with eq [of ws] show ?thesis by (simp add: isOk_def)
  next
    case (Err e)
    show ?thesis
    proof (cases "combineWithAllErrors rs")
      case (Ok ws)
      with eq [of ws] Err show ?thesis by simp
    next
      case Err2: (Err es)
      with Err show ?thesis by (simp add: isOk_def)
    qed
  qed
  moreover have "isOk (combine rs) = list_all isOk rs"
    by (simp add: combine_def combine_isOk_iff)
  ultimately show ?thesis using eq [of vs] by (simp add: ok_def)
qed


section \<open>Chaining and transformation\<close>

text \<open>
  C3. On a success, \<open>andThen\<close> is the call of \<open>f\<close> on the payload: its completion,
  its Result (or promise) and its effect on the state, nothing wrapped around them.
  On a failure the same failure comes back and the state is the one before the
  call, whatever \<open>f\<close> is: \<open>f\<close> has not run. The helper of helpers.ts does the same.
\<close>

theorem andThen_flattens:
  "andThen (ok x) f s = f x s
   \<and> andThen (err e) f s = (Returns (Plain (err e)), s)
   \<and> helpers_andThen (ok x) g s = g x s
   \<and> helpers_andThen (err e) g s = (Returns (err e), s)"
  by (simp add: andThen_def helpers_andThen_def ok_def err_def
        split: prod.splits outcome.splits js.splits)

text \<open>
  C4, counterexample. For a function that returns a promise, \<open>map\<close> of a success
  is not a success whose payload is what the function returned: it is a promise.
\<close>

theorem map_async_counterexample:
  "async_double 42 () = (Returns (Promise (Fulfilled 84)), ())
   \<and> map_res (ok 42 :: (nat, string) result) async_double ()
       = (Returns (Promise (Fulfilled (ok 84))), ())
   \<and> \<not> (\<exists>u s'. map_res (ok 42 :: (nat, string) result) async_double ()
               = (Returns (Plain (ok u)), s'))"
  by (simp add: map_res_def async_double_def ok_def returning_def)

text \<open>
  C4, amended. When \<open>f\<close> returns a value that is not a promise, \<open>map\<close> of a
  success is the success of that value; when \<open>f\<close> returns a promise, \<open>map\<close>
  returns a promise that fulfils with the success of the value the first one
  fulfils with (and rejects or stays pending as the first one does); when \<open>f\<close>
  throws, the exception goes on to the caller. On a failure the same failure comes
  back and the state is the one before the call, whatever \<open>f\<close> is: \<open>f\<close> has not
  run. The helper of helpers.ts wraps whatever \<open>f\<close> returns.
\<close>

theorem map_functor_law:
  "map_res (ok x) f s =
     (case f x s of
        (Returns (Plain u), s') \<Rightarrow> (Returns (Plain (ok u)), s')
      | (Returns (Promise p), s') \<Rightarrow>
          (Returns (Promise (case p of
                               Fulfilled v \<Rightarrow> Fulfilled (ok v)
                             | Rejected r \<Rightarrow> Rejected r
                             | Pending \<Rightarrow> Pending)), s')
      | (Throws ex, s') \<Rightarrow> (Throws ex, s'))
   \<and> map_res (err e) f s = (Returns (Plain (err e)), s)
   \<and> helpers_map (ok x) g s =
       (case g x s of
          (Returns u, s') \<Rightarrow> (Returns (ok u), s')
        | (Throws ex, s') \<Rightarrow> (Throws ex, s'))
   \<and> helpers_map (err e) g s = (Returns (err e), s)"
  by (simp add: map_res_def helpers_map_def ok_def err_def returning_def
        split: prod.splits outcome.splits js.splits promise.splits)


section \<open>Unsafe extraction\<close>

text \<open>
  C5. \<open>unsafeUnwrap\<close> returns the payload of a success. On a failure it throws an
  \<open>Error\<close> with the message \<open>Attempted to unwrap an Err value\<close> and no cause:
  the same error for every failure payload. \<open>safeUnwrap\<close> of helpers.ts is the same
  function.
\<close>

theorem unsafeUnwrap_behaviour:
  "unsafeUnwrap (ok x) = Returns x
   \<and> unsafeUnwrap (err e) = Throws (Error ''Attempted to unwrap an Err value'' None)
   \<and> unsafeUnwrap (err e :: ('a, 'b) result)
       = (unsafeUnwrap (err e' :: ('a, 'b) result) :: ('a, 'b js_error) outcome)
   \<and> safeUnwrap r = unsafeUnwrap r"
  by (simp add: unsafeUnwrap_def safeUnwrap_def new_Error_def ok_def err_def)


section \<open>Adapters\<close>

text \<open>
  C6, counterexample. The \<open>fromThrowable\<close> of helpers.ts has no test for a
  promise: given a function that returns a rejecting promise it returns, at once,
  a success whose payload is that promise, where the \<open>fromThrowable\<close> of
  index.ts returns a promise that fulfils with the failure of the reason.
\<close>

theorem helpers_fromThrowable_counterexample:
  "rejecting () = (Returns (Promise (Rejected ''boom'')), ())
   \<and> helpers_fromThrowable rejecting () = (Returns (ok (Promise (Rejected ''boom''))), ())
   \<and> isOk (ok (Promise (Rejected ''boom'')) :: ((nat, string) maybe_async, string) result)
   \<and> fromThrowable rejecting () = (Returns (Promise (Fulfilled (err ''boom''))), ())"
  by (simp add: rejecting_def helpers_fromThrowable_def fromThrowable_def ok_def err_def
        returning_def isOk_def)

text \<open>
  C6, amended. The \<open>fromThrowable\<close> of index.ts runs \<open>f\<close> at once (the state
  after it is the state \<open>f\<close> leaves) and never throws. When \<open>f\<close> returns a value
  that is not a promise, the result is the success of that value; when \<open>f\<close>
  throws, it is the failure of the thrown value; when \<open>f\<close> returns a promise, it
  is a promise that fulfils with the success of the fulfilment value or with the
  failure of the rejection reason. The only argument is \<open>f\<close>. The
  \<open>fromThrowable\<close> of helpers.ts has the synchronous mode only: it runs its
  argument at once and never throws, the result is the success of whatever the
  argument returns, a promise included, and the failure of what it throws.
\<close>

theorem fromThrowable_modes:
  "fromThrowable f s =
     (case f s of
        (Returns (Plain v), s') \<Rightarrow> (Returns (Plain (ok v)), s')
      | (Returns (Promise p), s') \<Rightarrow>
          (Returns (Promise (case p of
                               Fulfilled v \<Rightarrow> Fulfilled (ok v)
                             | Rejected r \<Rightarrow> Fulfilled (err r)
                             | Pending \<Rightarrow> Pending)), s')
      | (Throws e, s') \<Rightarrow> (Returns (Plain (err e)), s'))
   \<and> fromThrowable f s \<noteq> (Throws ex, s'')
   \<and> helpers_fromThrowable g s =
       (case g s of
          (Returns v, s') \<Rightarrow> (Returns (ok v), s')
        | (Throws e, s') \<Rightarrow> (Returns (err e), s'))
   \<and> helpers_fromThrowable g s \<noteq> (Throws ex', s'')
   \<and> helpers_fromThrowable (\<lambda>s. (Returns (Promise p'), s)) s = (Returns (ok (Promise p')), s)"
  by (simp add: fromThrowable_def helpers_fromThrowable_def ok_def err_def returning_def
        split: prod.splits outcome.splits js.splits promise.splits)

text \<open>
  On a function that returns no promise the two agree.
\<close>

lemma helpers_fromThrowable_sync:
  "fromThrowable (\<lambda>s. case f s of (Returns v, s') \<Rightarrow> (Returns (Plain v), s') | (Throws e, s') \<Rightarrow> (Throws e, s')) s
     = (case helpers_fromThrowable f s of
          (Returns r, s') \<Rightarrow> (Returns (Plain r), s')
        | (Throws e, s') \<Rightarrow> (Throws e, s'))"
  by (simp add: fromThrowable_def helpers_fromThrowable_def split: prod.splits outcome.splits)

lemma helpers_fromThrowable_promise:
  "helpers_fromThrowable (\<lambda>s. (Returns (Promise p), s)) s = (Returns (ok (Promise p)), s)"
  by (simp add: helpers_fromThrowable_def)

text \<open>
  C7. \<open>fromPromise\<close> of a promise that fulfils with \<open>v\<close> fulfils with the success
  of \<open>v\<close>; of a promise that rejects with \<open>r\<close> it fulfils with the failure of
  \<open>r\<close>; it never rejects.
\<close>

theorem fromPromise_never_rejects:
  "fromPromise (Fulfilled v) = Fulfilled (ok v)
   \<and> fromPromise (Rejected r) = Fulfilled (err r)
   \<and> fromPromise Pending = Pending
   \<and> fromPromise p \<noteq> Rejected y"
  by (cases p) (simp_all add: fromPromise_def ok_def err_def returning_def)


section \<open>No combinator overwrites an object\<close>

lemma prefix_nth: "prefix h h' \<Longrightarrow> a < length h \<Longrightarrow> h' ! a = h ! a"
  by (auto simp: prefix_def nth_append)

lemma alloc_extends: "prefix h (snd (alloc obj h))"
  by (simp add: alloc_def)

lemma alloc_fresh: "fst (alloc obj h) = length h" "snd (alloc obj h) ! length h = obj"
  by (simp_all add: alloc_def)

lemma map_ref_extends:
  "prefix (case h ! r of Ok v \<Rightarrow> snd (f v h) | Err e \<Rightarrow> h) (snd (map_ref r f h))"
  by (simp add: map_ref_def alloc_def split: result.splits prod.splits outcome.splits js.splits)

lemma mapErr_ref_extends:
  "prefix (case h ! r of Ok v \<Rightarrow> h | Err e \<Rightarrow> snd (f e h)) (snd (mapErr_ref r f h))"
  by (simp add: mapErr_ref_def alloc_def split: result.splits prod.splits outcome.splits)

lemma andThen_ref_store:
  "snd (andThen_ref r f h) = (case h ! r of Ok v \<Rightarrow> snd (f v h) | Err e \<Rightarrow> h)"
  by (simp add: andThen_ref_def split: result.splits prod.splits outcome.splits js.splits)

lemma orElse_ref_store:
  "snd (orElse_ref r f h) = (case h ! r of Ok v \<Rightarrow> h | Err e \<Rightarrow> snd (f e h))"
  by (simp add: orElse_ref_def split: result.splits)

lemma match_ref_store:
  "snd (match_ref r okFn errFn h) = (case h ! r of Ok v \<Rightarrow> snd (okFn v h) | Err e \<Rightarrow> snd (errFn e h))"
  by (simp add: match_ref_def split: result.splits prod.splits outcome.splits js.splits)

lemma unwrapOr_ref_store: "snd (unwrapOr_ref r d h) = h"
  by (simp add: unwrapOr_ref_def split: result.splits)

lemma unsafeUnwrap_ref_store: "snd (unsafeUnwrap_ref r h) = h"
  by (simp add: unsafeUnwrap_ref_def split: result.splits)

lemma combine_ref_loop_extends: "prefix h (snd (combine_ref_loop vals rs h))"
  by (induction rs arbitrary: vals) (simp_all add: alloc_def split: result.splits)

lemma combineWithAllErrors_ref_loop_extends:
  "prefix h (snd (combineWithAllErrors_ref_loop vals errs rs h))"
  by (induction rs arbitrary: vals errs) (simp_all add: alloc_def split: result.splits)

lemma untouchedI: "r < length h \<Longrightarrow> prefix h h' \<Longrightarrow> untouched h r h'"
  by (simp add: untouched_def prefix_nth)

lemma overwrites_nothingD: "overwrites_nothing f \<Longrightarrow> prefix h (snd (f v h))"
  by (simp add: overwrites_nothing_def)

lemma map_ref_frame:
  assumes "overwrites_nothing f"
  shows "prefix h (snd (map_ref r f h))"
proof -
  have "prefix h (case h ! r of Ok v \<Rightarrow> snd (f v h) | Err e \<Rightarrow> h)"
    using assms by (simp add: overwrites_nothingD split: result.splits)
  then show ?thesis
    using map_ref_extends [where h = h and r = r and f = f] by (rule prefix_order.trans)
qed

lemma mapErr_ref_frame:
  assumes "overwrites_nothing f"
  shows "prefix h (snd (mapErr_ref r f h))"
proof -
  have "prefix h (case h ! r of Ok v \<Rightarrow> h | Err e \<Rightarrow> snd (f e h))"
    using assms by (simp add: overwrites_nothingD split: result.splits)
  then show ?thesis
    using mapErr_ref_extends [where h = h and r = r and f = f] by (rule prefix_order.trans)
qed

lemma andThen_ref_frame: "overwrites_nothing f \<Longrightarrow> prefix h (snd (andThen_ref r f h))"
  by (simp add: andThen_ref_store overwrites_nothingD split: result.splits)

lemma orElse_ref_frame: "overwrites_nothing f \<Longrightarrow> prefix h (snd (orElse_ref r f h))"
  by (simp add: orElse_ref_store overwrites_nothingD split: result.splits)

lemma match_ref_frame:
  "overwrites_nothing okFn \<Longrightarrow> overwrites_nothing errFn
     \<Longrightarrow> prefix h (snd (match_ref r okFn errFn h))"
  by (simp add: match_ref_store overwrites_nothingD split: result.splits)

lemma map_ref_returns:
  assumes "overwrites_nothing f" and "fst (map_ref r f h) = Returns (Plain a)"
  shows "same_or_new h r a"
proof (cases "h ! r")
  case (Err e)
  with assms(2) show ?thesis by (simp add: map_ref_def same_or_new_def)
next
  case (Ok v)
  obtain out h' where fv: "f v h = (out, h')" by (cases "f v h")
  from assms(1) have "prefix h (snd (f v h))" by (rule overwrites_nothingD)
  with fv have "length h \<le> length h'" by (simp add: prefix_length_le)
  with assms(2) Ok fv show ?thesis
    by (auto simp: map_ref_def alloc_def same_or_new_def split: outcome.splits js.splits)
qed

lemma mapErr_ref_returns:
  assumes "overwrites_nothing f" and "fst (mapErr_ref r f h) = Returns a"
  shows "same_or_new h r a"
proof (cases "h ! r")
  case (Ok v)
  with assms(2) show ?thesis by (simp add: mapErr_ref_def same_or_new_def)
next
  case (Err e)
  obtain out h' where fe: "f e h = (out, h')" by (cases "f e h")
  from assms(1) have "prefix h (snd (f e h))" by (rule overwrites_nothingD)
  with fe have "length h \<le> length h'" by (simp add: prefix_length_le)
  with assms(2) Err fe show ?thesis
    by (auto simp: mapErr_ref_def alloc_def same_or_new_def split: outcome.splits)
qed

lemma combine_ref_loop_returns:
  "fst (combine_ref_loop vals rs h) \<in> set rs \<or> fst (combine_ref_loop vals rs h) = length h"
  by (induction rs arbitrary: vals) (auto simp: alloc_def split: result.splits)

lemma combineWithAllErrors_ref_loop_returns:
  "fst (combineWithAllErrors_ref_loop vals errs rs h) = length h"
  by (induction rs arbitrary: vals errs) (simp_all add: alloc_def split: result.splits)

text \<open>
  What each combinator returns and what store it leaves, whatever the caller's
  functions do.
\<close>

lemma map_ref_exact:
  "map_ref r f h =
     (case map_res (h ! r) f h of
        (Throws ex, h') \<Rightarrow> (Throws ex, h')
      | (Returns (Promise p), h') \<Rightarrow> (Returns (Promise p), h')
      | (Returns (Plain obj), h') \<Rightarrow>
          (case h ! r of
             Err e \<Rightarrow> (Returns (Plain r), h')
           | Ok v \<Rightarrow> (Returns (Plain (length h')), h' @ [obj])))"
  by (simp add: map_res_def map_ref_def alloc_def
        split: result.splits prod.splits outcome.splits js.splits)

lemma mapErr_ref_exact:
  "mapErr_ref r g h =
     (case mapErr (h ! r) g h of
        (Throws ex, h') \<Rightarrow> (Throws ex, h')
      | (Returns obj, h') \<Rightarrow>
          (case h ! r of
             Ok v \<Rightarrow> (Returns r, h')
           | Err e \<Rightarrow> (Returns (length h'), h' @ [obj])))"
  by (simp add: mapErr_def mapErr_ref_def alloc_def
        split: result.splits prod.splits outcome.splits)

lemma andThen_ref_exact:
  "andThen_ref r k h = (case h ! r of Ok v \<Rightarrow> k v h | Err e \<Rightarrow> (Returns (Plain r), h))"
  by (simp add: andThen_ref_def split: result.splits prod.splits outcome.splits js.splits)

lemma orElse_ref_exact:
  "orElse_ref r j h = (case h ! r of Ok v \<Rightarrow> (Returns r, h) | Err e \<Rightarrow> j e h)"
  by (simp add: orElse_ref_def split: result.splits)

lemma match_ref_exact:
  "match_ref r okFn errFn h = (case h ! r of Ok v \<Rightarrow> okFn v h | Err e \<Rightarrow> errFn e h)"
  by (simp add: match_ref_def split: result.splits prod.splits outcome.splits js.splits)

lemma combine_ref_loop_exact:
  "combine_ref_loop vals rs h =
     (case List.find (\<lambda>a. isErr (h ! a)) rs of
        Some a \<Rightarrow> (a, h)
      | None \<Rightarrow> (length h, h @ [Ok (Array (vals @ [v. Ok v \<leftarrow> map ((!) h) rs]))]))"
proof (induction rs arbitrary: vals)
  case Nil
  then show ?case by (simp add: alloc_def ok_def)
next
  case (Cons a rs)
  then show ?case by (cases "h ! a") (simp_all add: isErr_def split: option.splits)
qed

lemma combine_ref_exact:
  "combine_ref rs h =
     (case List.find (\<lambda>a. isErr (h ! a)) rs of
        Some a \<Rightarrow> (a, h)
      | None \<Rightarrow> (length h, h @ [Ok (Array [v. Ok v \<leftarrow> map ((!) h) rs])]))"
  by (simp add: combine_ref_def combine_ref_loop_exact split: option.splits)

lemma combineWithAllErrors_ref_loop_exact:
  "combineWithAllErrors_ref_loop vals errs rs h =
     (length h,
      h @ [case combineWithAllErrors_loop vals errs (map ((!) h) rs) of
             Ok vs \<Rightarrow> Ok (Array vs) | Err es \<Rightarrow> Err (Array es)])"
  by (induction rs arbitrary: vals errs)
     (simp_all add: alloc_def ok_def err_def split: result.splits)

lemma combineWithAllErrors_ref_exact:
  "combineWithAllErrors_ref rs h =
     (length h,
      h @ [case combineWithAllErrors (map ((!) h) rs) of
             Ok vs \<Rightarrow> Ok (Array vs) | Err es \<Rightarrow> Err (Array es)])"
  by (simp add: combineWithAllErrors_ref_def combineWithAllErrors_def
        combineWithAllErrors_ref_loop_exact)

lemma unwrapOr_ref_exact: "unwrapOr_ref r d h = (unwrapOr (h ! r) d, h)"
  by (simp add: unwrapOr_def unwrapOr_ref_def split: result.splits)

lemma unsafeUnwrap_ref_exact: "unsafeUnwrap_ref r h = (unsafeUnwrap (h ! r), h)"
  by (simp add: unsafeUnwrap_def unsafeUnwrap_ref_def split: result.splits)

text \<open>
  C9, counterexample. A caller's function may assign to a field of a Result, and
  then the Result is another one after the call: \<open>map\<close> with a callback that
  sets the payload of the object at \<open>0\<close> leaves that object with another
  payload. And \<open>andThen\<close> returns what the caller's function returns, which may
  be an object that existed before and is not the argument: neither a new
  instance nor the original.
\<close>

theorem combinators_callback_counterexample:
  "sample_store ! 0 = Ok (Atom 1)
   \<and> snd (map_ref 0 clobber sample_store) ! 0 = Ok (Atom 0)
   \<and> andThen_ref 0 second_result sample_store = (Returns (Plain 1), sample_store)
   \<and> \<not> same_or_new sample_store 0 1"
  by (simp add: sample_store_def map_ref_def clobber_def andThen_ref_def second_result_def
        alloc_def ok_def same_or_new_def)

text \<open>
  C9, amended. No combinator assigns to an object. Whatever the caller's functions
  do, the store after a call is the store that the caller's function run by the
  call leaves (the store before the call when none is run), with at most one new
  Result after it:
  \<^item> \<open>map\<close> and \<open>mapErr\<close> compute the Result of the function on values from the
    object at \<open>r\<close>; when they transform, that Result is a new object, added to
    the store the callback leaves, and its address is returned; otherwise the
    reference \<open>r\<close> itself is returned;
  \<^item> \<open>andThen\<close> and \<open>orElse\<close> are the call of the caller's function when they
    run it, and return what it returns; otherwise they return \<open>r\<close> itself and the
    store as it was; \<open>match\<close> is the call of the branch that is run;
  \<^item> \<open>unwrapOr\<close> and \<open>unsafeUnwrap\<close> leave the store as it was;
  \<^item> \<open>combine\<close> returns the reference of the first failure and the store as it
    was, or adds one new success; \<open>combineWithAllErrors\<close> adds one new Result.
  So when the caller's functions overwrite no object and \<open>r\<close> is a reference to a
  Result in the store, every object that existed before the call is in the store
  as it was, with its tag and its payload, and so is the one at \<open>r\<close>; and the
  Result that \<open>map\<close> or \<open>mapErr\<close> returns is then \<open>r\<close> itself or an object that
  did not exist before.
\<close>

theorem combinators_do_not_mutate:
  "map_ref r f h =
     (case map_res (h ! r) f h of
        (Throws ex, h') \<Rightarrow> (Throws ex, h')
      | (Returns (Promise p), h') \<Rightarrow> (Returns (Promise p), h')
      | (Returns (Plain obj), h') \<Rightarrow>
          (case h ! r of
             Err e \<Rightarrow> (Returns (Plain r), h')
           | Ok v \<Rightarrow> (Returns (Plain (length h')), h' @ [obj])))
   \<and> mapErr_ref r g h =
     (case mapErr (h ! r) g h of
        (Throws ex, h') \<Rightarrow> (Throws ex, h')
      | (Returns obj, h') \<Rightarrow>
          (case h ! r of
             Ok v \<Rightarrow> (Returns r, h')
           | Err e \<Rightarrow> (Returns (length h'), h' @ [obj])))
   \<and> andThen_ref r k h = (case h ! r of Ok v \<Rightarrow> k v h | Err e \<Rightarrow> (Returns (Plain r), h))
   \<and> orElse_ref r j h = (case h ! r of Ok v \<Rightarrow> (Returns r, h) | Err e \<Rightarrow> j e h)
   \<and> match_ref r okFn errFn h = (case h ! r of Ok v \<Rightarrow> okFn v h | Err e \<Rightarrow> errFn e h)
   \<and> unwrapOr_ref r d h = (unwrapOr (h ! r) d, h)
   \<and> unsafeUnwrap_ref r h = (unsafeUnwrap (h ! r) :: ('a jsval, 'c js_error) outcome, h)
   \<and> combine_ref rs h =
     (case List.find (\<lambda>a. isErr (h ! a)) rs of
        Some a \<Rightarrow> (a, h)
      | None \<Rightarrow> (length h, h @ [Ok (Array [v. Ok v \<leftarrow> map ((!) h) rs])]))
   \<and> combineWithAllErrors_ref rs h =
     (length h,
      h @ [case combineWithAllErrors (map ((!) h) rs) of
             Ok vs \<Rightarrow> Ok (Array vs) | Err es \<Rightarrow> Err (Array es)])
   \<and> prefix (case h ! r of Ok v \<Rightarrow> snd (f v h) | Err e \<Rightarrow> h) (snd (map_ref r f h))
   \<and> prefix (case h ! r of Ok v \<Rightarrow> h | Err e \<Rightarrow> snd (g e h)) (snd (mapErr_ref r g h))
   \<and> (r < length h \<and> overwrites_nothing f \<longrightarrow> untouched h r (snd (map_ref r f h)))
   \<and> (r < length h \<and> overwrites_nothing g \<longrightarrow> untouched h r (snd (mapErr_ref r g h)))
   \<and> (r < length h \<and> overwrites_nothing k \<longrightarrow> untouched h r (snd (andThen_ref r k h)))
   \<and> (r < length h \<and> overwrites_nothing j \<longrightarrow> untouched h r (snd (orElse_ref r j h)))
   \<and> (r < length h \<and> overwrites_nothing okFn \<and> overwrites_nothing errFn
        \<longrightarrow> untouched h r (snd (match_ref r okFn errFn h)))
   \<and> (r < length h \<longrightarrow> untouched h r (snd (unwrapOr_ref r d h)))
   \<and> (r < length h \<longrightarrow> untouched h r (snd (combine_ref rs h)))
   \<and> (r < length h \<longrightarrow> untouched h r (snd (combineWithAllErrors_ref rs h)))
   \<and> (r < length h
        \<longrightarrow> untouched h r (snd (unsafeUnwrap_ref r h :: ('a jsval, 'c js_error) outcome \<times> _)))
   \<and> (overwrites_nothing f
        \<longrightarrow> (\<forall>a. fst (map_ref r f h) = Returns (Plain a) \<longrightarrow> same_or_new h r a))
   \<and> (overwrites_nothing g
        \<longrightarrow> (\<forall>a. fst (mapErr_ref r g h) = Returns a \<longrightarrow> same_or_new h r a))
   \<and> (fst (combine_ref rs h) \<in> set rs \<or> fst (combine_ref rs h) = length h)
   \<and> fst (combineWithAllErrors_ref rs h) = length h"
proof -
  have e1: "map_ref r f h =
     (case map_res (h ! r) f h of
        (Throws ex, h') \<Rightarrow> (Throws ex, h')
      | (Returns (Promise p), h') \<Rightarrow> (Returns (Promise p), h')
      | (Returns (Plain obj), h') \<Rightarrow>
          (case h ! r of
             Err e \<Rightarrow> (Returns (Plain r), h')
           | Ok v \<Rightarrow> (Returns (Plain (length h')), h' @ [obj])))"
    by (rule map_ref_exact)
  have e2: "mapErr_ref r g h =
     (case mapErr (h ! r) g h of
        (Throws ex, h') \<Rightarrow> (Throws ex, h')
      | (Returns obj, h') \<Rightarrow>
          (case h ! r of
             Ok v \<Rightarrow> (Returns r, h')
           | Err e \<Rightarrow> (Returns (length h'), h' @ [obj])))"
    by (rule mapErr_ref_exact)
  have e3: "andThen_ref r k h = (case h ! r of Ok v \<Rightarrow> k v h | Err e \<Rightarrow> (Returns (Plain r), h))"
    by (rule andThen_ref_exact)
  have e4: "orElse_ref r j h = (case h ! r of Ok v \<Rightarrow> (Returns r, h) | Err e \<Rightarrow> j e h)"
    by (rule orElse_ref_exact)
  have e5: "match_ref r okFn errFn h = (case h ! r of Ok v \<Rightarrow> okFn v h | Err e \<Rightarrow> errFn e h)"
    by (rule match_ref_exact)
  have e6: "unwrapOr_ref r d h = (unwrapOr (h ! r) d, h)"
    by (rule unwrapOr_ref_exact)
  have e7: "unsafeUnwrap_ref r h = (unsafeUnwrap (h ! r) :: ('a jsval, 'c js_error) outcome, h)"
    by (rule unsafeUnwrap_ref_exact)
  have e8: "combine_ref rs h =
     (case List.find (\<lambda>a. isErr (h ! a)) rs of
        Some a \<Rightarrow> (a, h)
      | None \<Rightarrow> (length h, h @ [Ok (Array [v. Ok v \<leftarrow> map ((!) h) rs])]))"
    by (rule combine_ref_exact)
  have e9: "combineWithAllErrors_ref rs h =
     (length h,
      h @ [case combineWithAllErrors (map ((!) h) rs) of
             Ok vs \<Rightarrow> Ok (Array vs) | Err es \<Rightarrow> Err (Array es)])"
    by (rule combineWithAllErrors_ref_exact)
  have p1: "prefix (case h ! r of Ok v \<Rightarrow> snd (f v h) | Err e \<Rightarrow> h) (snd (map_ref r f h))"
    by (rule map_ref_extends)
  have p2: "prefix (case h ! r of Ok v \<Rightarrow> h | Err e \<Rightarrow> snd (g e h)) (snd (mapErr_ref r g h))"
    by (rule mapErr_ref_extends)
  have u1: "r < length h \<and> overwrites_nothing f \<longrightarrow> untouched h r (snd (map_ref r f h))"
    by (simp add: untouchedI map_ref_frame)
  have u2: "r < length h \<and> overwrites_nothing g \<longrightarrow> untouched h r (snd (mapErr_ref r g h))"
    by (simp add: untouchedI mapErr_ref_frame)
  have u3: "r < length h \<and> overwrites_nothing k \<longrightarrow> untouched h r (snd (andThen_ref r k h))"
    by (simp add: untouchedI andThen_ref_frame)
  have u4: "r < length h \<and> overwrites_nothing j \<longrightarrow> untouched h r (snd (orElse_ref r j h))"
    by (simp add: untouchedI orElse_ref_frame)
  have u5: "r < length h \<and> overwrites_nothing okFn \<and> overwrites_nothing errFn
        \<longrightarrow> untouched h r (snd (match_ref r okFn errFn h))"
    by (simp add: untouchedI match_ref_frame)
  have u6: "r < length h \<longrightarrow> untouched h r (snd (unwrapOr_ref r d h))"
    by (simp add: unwrapOr_ref_store untouched_def)
  have u7: "r < length h \<longrightarrow> untouched h r (snd (combine_ref rs h))"
    by (simp add: combine_ref_def untouchedI combine_ref_loop_extends)
  have u8: "r < length h \<longrightarrow> untouched h r (snd (combineWithAllErrors_ref rs h))"
    by (simp add: combineWithAllErrors_ref_def untouchedI combineWithAllErrors_ref_loop_extends)
  have u9: "r < length h
        \<longrightarrow> untouched h r (snd (unsafeUnwrap_ref r h :: ('a jsval, 'c js_error) outcome \<times> _))"
    by (simp add: unsafeUnwrap_ref_store untouched_def)
  have n1: "overwrites_nothing f
        \<longrightarrow> (\<forall>a. fst (map_ref r f h) = Returns (Plain a) \<longrightarrow> same_or_new h r a)"
    by (blast intro: map_ref_returns)
  have n2: "overwrites_nothing g
        \<longrightarrow> (\<forall>a. fst (mapErr_ref r g h) = Returns a \<longrightarrow> same_or_new h r a)"
    by (blast intro: mapErr_ref_returns)
  have n3: "fst (combine_ref rs h) \<in> set rs \<or> fst (combine_ref rs h) = length h"
    unfolding combine_ref_def by (rule combine_ref_loop_returns)
  have n4: "fst (combineWithAllErrors_ref rs h) = length h"
    unfolding combineWithAllErrors_ref_def by (rule combineWithAllErrors_ref_loop_returns)
  show ?thesis
    by (intro conjI) (fact e1 e2 e3 e4 e5 e6 e7 e8 e9 p1 p2 u1 u2 u3 u4 u5 u6 u7 u8 u9 n1 n2 n3 n4)+
qed

theorem combinators_do_not_mutate_witness:
  "0 < length sample_store
   \<and> overwrites_nothing same_value \<and> overwrites_nothing same_error
   \<and> overwrites_nothing wrap_ok \<and> overwrites_nothing rescue
   \<and> untouched sample_store 0 (snd (map_ref 0 same_value sample_store))
   \<and> untouched sample_store 0 (snd (mapErr_ref 0 same_error sample_store))
   \<and> untouched sample_store 0 (snd (andThen_ref 0 wrap_ok sample_store))
   \<and> untouched sample_store 0 (snd (orElse_ref 0 rescue sample_store))
   \<and> untouched sample_store 0 (snd (match_ref 0 same_value same_value sample_store))
   \<and> snd (map_ref 0 same_value sample_store) ! 0 = Ok (Atom 1)
   \<and> snd (combine_ref [0, 1] sample_store) ! 0 = Ok (Atom 1)
   \<and> fst (combineWithAllErrors_ref [0, 1] sample_store) = length sample_store"
proof -
  have p: "0 < length sample_store"
    by (simp add: sample_store_def)
  have c1: "overwrites_nothing same_value"
    by (simp add: overwrites_nothing_def same_value_def)
  have c2: "overwrites_nothing same_error"
    by (simp add: overwrites_nothing_def same_error_def)
  have c3: "overwrites_nothing wrap_ok"
    by (simp add: overwrites_nothing_def wrap_ok_def alloc_def)
  have c4: "overwrites_nothing rescue"
    by (simp add: overwrites_nothing_def rescue_def alloc_def)
  have r: "sample_store ! 0 = Ok (Atom 1)"
    by (simp add: sample_store_def)
  have t: "untouched sample_store 0 (snd (map_ref 0 same_value sample_store))
      \<and> untouched sample_store 0 (snd (mapErr_ref 0 same_error sample_store))
      \<and> untouched sample_store 0 (snd (andThen_ref 0 wrap_ok sample_store))
      \<and> untouched sample_store 0 (snd (orElse_ref 0 rescue sample_store))
      \<and> untouched sample_store 0 (snd (match_ref 0 same_value same_value sample_store))
      \<and> untouched sample_store 0 (snd (combine_ref [0, 1] sample_store))
      \<and> fst (combineWithAllErrors_ref [0, 1] sample_store) = length sample_store"
    using p c1 c2 c3 c4
      combinators_do_not_mutate [of 0 same_value sample_store same_error wrap_ok rescue
        same_value same_value "Atom 0" "[0, 1]"]
    by blast
  then have "snd (map_ref 0 same_value sample_store) ! 0 = Ok (Atom 1)"
    and "snd (combine_ref [0, 1] sample_store) ! 0 = Ok (Atom 1)"
    using r by (simp_all add: untouched_def)
  with p c1 c2 c3 c4 t show ?thesis
    by blast
qed

text \<open>
  The condition on the caller's functions is needed, and the store does tell an
  assignment from an allocation: the callback that assigns to a field of the
  object at \<open>0\<close> is not one that overwrites nothing, and that object is another
  one after \<open>map\<close>.
\<close>

lemma clobber_overwrites:
  "\<not> overwrites_nothing clobber"
  "snd (map_ref 0 clobber sample_store) ! 0 = Ok (Atom 0)"
  "\<not> untouched sample_store 0 (snd (map_ref 0 clobber sample_store))"
proof -
  have "\<not> prefix sample_store (snd (clobber (Atom 1) sample_store))"
    by (simp add: clobber_def sample_store_def)
  then show "\<not> overwrites_nothing clobber"
    unfolding overwrites_nothing_def by blast
  show "snd (map_ref 0 clobber sample_store) ! 0 = Ok (Atom 0)"
    by (simp add: map_ref_def clobber_def sample_store_def alloc_def ok_def)
  then show "\<not> untouched sample_store 0 (snd (map_ref 0 clobber sample_store))"
    by (simp add: untouched_def sample_store_def)
qed


section \<open>The two levels agree\<close>

text \<open>
  The object behind the reference that a combinator on the store returns is the
  Result that the combinator on values computes from the objects behind its
  arguments (an array of payloads being an \<open>Array\<close>).
\<close>

lemma map_ref_value:
  "fst (map_res (h ! r) f h) =
     (case map_ref r f h of
        (Throws ex, h') \<Rightarrow> Throws ex
      | (Returns (Promise p), h') \<Rightarrow> Returns (Promise p)
      | (Returns (Plain a), h') \<Rightarrow> Returns (Plain (h' ! a)))"
  by (simp add: map_res_def map_ref_def alloc_def
        split: result.splits prod.splits outcome.splits js.splits)

lemma mapErr_ref_value:
  "fst (mapErr (h ! r) f h) =
     (case mapErr_ref r f h of
        (Throws ex, h') \<Rightarrow> Throws ex
      | (Returns a, h') \<Rightarrow> Returns (h' ! a))"
  by (simp add: mapErr_def mapErr_ref_def alloc_def
        split: result.splits prod.splits outcome.splits)

lemma combine_ref_loop_value:
  "(case combine_ref_loop vals rs h of (a, h') \<Rightarrow> h' ! a) =
     (case combine_loop vals (map ((!) h) rs) of Ok vs \<Rightarrow> Ok (Array vs) | Err e \<Rightarrow> Err e)"
  by (induction rs arbitrary: vals) (simp_all add: alloc_def ok_def split: result.splits)

lemma combine_ref_value:
  "(case combine_ref rs h of (a, h') \<Rightarrow> h' ! a) =
     (case combine (map ((!) h) rs) of Ok vs \<Rightarrow> Ok (Array vs) | Err e \<Rightarrow> Err e)"
  by (simp add: combine_ref_def combine_def combine_ref_loop_value)

lemma combineWithAllErrors_ref_loop_value:
  "(case combineWithAllErrors_ref_loop vals errs rs h of (a, h') \<Rightarrow> h' ! a) =
     (case combineWithAllErrors_loop vals errs (map ((!) h) rs) of
        Ok vs \<Rightarrow> Ok (Array vs) | Err es \<Rightarrow> Err (Array es))"
  by (induction rs arbitrary: vals errs) (simp_all add: alloc_def ok_def err_def split: result.splits)

lemma combineWithAllErrors_ref_value:
  "(case combineWithAllErrors_ref rs h of (a, h') \<Rightarrow> h' ! a) =
     (case combineWithAllErrors (map ((!) h) rs) of
        Ok vs \<Rightarrow> Ok (Array vs) | Err es \<Rightarrow> Err (Array es))"
  by (simp add: combineWithAllErrors_ref_def combineWithAllErrors_def
        combineWithAllErrors_ref_loop_value)


section \<open>The cases of index.spec.ts\<close>

lemma example_map_ok:
  "map_res (ok 42 :: (nat, string) result) double () = (Returns (Plain (ok 84)), ())"
  by (simp add: map_res_def double_def ok_def)

lemma example_map_err:
  "map_res (err ''Something went wrong'' :: (nat, string) result) should_not_be_called ()
     = (Returns (Plain (err ''Something went wrong'' :: (nat, string) result)), ())"
  by (simp add: map_res_def err_def)

lemma example_andThen_err:
  "andThen (err ''Something went wrong'' :: (nat, string) result) should_not_be_called ()
     = (Returns (Plain (err ''Something went wrong'' :: (nat, string) result) :: (_, unit) js), ())"
  by (simp add: andThen_def err_def)

lemma example_fromThrowable_ok:
  "fromThrowable (\<lambda>s. (Returns (Plain (42::nat)), s)) ()
     = (Returns (Plain (ok 42)) :: (_, unit) outcome, ())"
  by (simp add: fromThrowable_def ok_def)

lemma example_fromThrowable_throws:
  "fromThrowable (should_not_be_called ()) ()
     = (Returns (Plain (err (Error ''Should not be called'' None) :: (nat, _) result)) :: (_, unit) outcome, ())"
  by (simp add: fromThrowable_def should_not_be_called_def new_Error_def err_def)

lemma example_combine_all_ok:
  "combine [ok 1, ok 2, ok 3 :: (nat, string) result] = ok [1, 2, 3]"
  by (simp add: combine_def ok_def)

lemma example_combine_first_err:
  "combine [ok 1, err ''Something went wrong'', ok (3::nat)] = err ''Something went wrong''"
  by (simp add: combine_def ok_def err_def)

lemma example_combineWithAllErrors_errs:
  "combineWithAllErrors [ok 1, err ''Error 1'', ok (3::nat), err ''Error 2'']
     = err [''Error 1'', ''Error 2'']"
  by (simp add: combineWithAllErrors_def ok_def err_def)

lemma example_combineWithAllErrors_all_ok:
  "combineWithAllErrors [ok 1, ok 2, ok 3 :: (nat, string) result] = ok [1, 2, 3]"
  by (simp add: combineWithAllErrors_def ok_def)

lemma example_safeUnwrap:
  "safeUnwrap (ok 42 :: (nat, string) result) = (Returns 42 :: (_, unit js_error) outcome)"
  "safeUnwrap (err ''Something went wrong'' :: (nat, string) result)
     = (Throws (Error ''Attempted to unwrap an Err value'' None) :: (_, unit js_error) outcome)"
  by (simp_all add: safeUnwrap_def new_Error_def ok_def err_def)

lemma example_map_ref:
  "map_ref 0 same_value sample_store = (Returns (Plain 2), sample_store @ [Ok (Atom 1)])"
  "map_ref 1 same_value sample_store = (Returns (Plain 1), sample_store)"
  by (simp_all add: map_ref_def same_value_def sample_store_def alloc_def ok_def)

lemma example_combine_ref:
  "combine_ref [0, 1] sample_store = (1, sample_store)"
  "combine_ref [0, 0] sample_store = (2, sample_store @ [Ok (Array [Atom 1, Atom 1])])"
  by (simp_all add: combine_ref_def sample_store_def alloc_def ok_def)

lemma example_unwrapOr:
  "unwrapOr (ok 42 :: (nat, string) result) 0 = 42"
  "unwrapOr (err ''Something went wrong'' :: (nat, string) result) 0 = 0"
  by (simp_all add: unwrapOr_def ok_def err_def)

end
